theory Spec2Isabelle
  imports Main "HOL-Library.Word" "HOL-Library.AList"
begin

section \<open>Identifiers\<close>

text \<open>
  An identifier is a \<open>bson.ObjectId\<close>: twelve bytes, printed as twenty-four lower-case
  hexadecimal digits. \<open>PyObjectId\<close> (database.py, lines 73-87) subclasses it without
  adding state, so one type stands for both.
\<close>

type_synonym byte = "8 word"

datatype objectid = ObjectId (binary: "byte list")

text \<open>The exceptions the modelled code raises, by their Python names.\<close>

datatype error =
    UnknownEntityError
  | ValidationError
  | ValueError
  | TypeError
  | NotImplementedError
  | InvalidId
  | WriteError
  | InvalidDocument

text \<open>The values a document of the store holds: strings and identifiers.\<close>

datatype fvalue = VStr string | VOid objectid

text \<open>
  The declared type of a data field (\<open>str\<close>, \<open>PyObjectId\<close> or
  \<open>ForeignKey[target_type]\<close>, the types database.py and its tests use) and an entity
  class: its \<open>__name__\<close>, its declared data fields (the inherited \<open>identifier\<close> field
  is not listed) and its direct base classes among the entity classes.
\<close>

datatype ftype = TStr | TObjectId | TForeignKey cls
  and cls = Cls (cname: string) (cfields: "(string \<times> ftype) list") (cbases: "cls list")

text \<open>
  The identifier a \<open>ForeignKey\<close> holds. The constructor's parameter is annotated
  \<open>str\<close>, but Python does not enforce annotations, and the validator also passes an
  entity's \<open>PyObjectId\<close> (line 50): both kinds of object occur.
\<close>

datatype fk_ident = IdStr string | IdObjectId objectid

datatype foreign_key = ForeignKey (target_type: cls) (fk_identifier: fk_ident)

text \<open>
  The value of a validated data field of an entity: a string, an identifier or a
  reference.
\<close>

datatype attr = AStr string | AOid objectid | ARef foreign_key

text \<open>An instance of \<open>DatabaseItem\<close>: its class, its \<open>identifier\<close> field and its data fields.\<close>

record item =
  item_type :: cls
  item_identifier :: objectid
  data :: "(string \<times> attr) list"

text \<open>The Python objects handed to the validators.\<close>

datatype pyobj =
    PyStr string
  | PyInt int
  | PyObjectId objectid
  | PyItem item
  | PyForeignKey foreign_key

subsection \<open>Hexadecimal strings\<close>

definition digit_value :: "char \<Rightarrow> nat option" where
  "digit_value c = map_of
     [(CHR ''0'', 0), (CHR ''1'', 1), (CHR ''2'', 2), (CHR ''3'', 3), (CHR ''4'', 4),
      (CHR ''5'', 5), (CHR ''6'', 6), (CHR ''7'', 7), (CHR ''8'', 8), (CHR ''9'', 9),
      (CHR ''a'', 10), (CHR ''b'', 11), (CHR ''c'', 12), (CHR ''d'', 13), (CHR ''e'', 14),
      (CHR ''f'', 15),
      (CHR ''A'', 10), (CHR ''B'', 11), (CHR ''C'', 12), (CHR ''D'', 13), (CHR ''E'', 14),
      (CHR ''F'', 15)] c"

text \<open>The byte written by two hexadecimal digits.\<close>

definition hex_byte :: "nat \<Rightarrow> nat \<Rightarrow> byte" where
  "hex_byte a b = of_nat (16 * a + b)"

text \<open>
  Modelled from the spec: \<open>bytes.fromhex\<close>, which \<open>bson.ObjectId\<close> calls on a string of
  length 24, is library code outside the repository. It is taken to read two hexadecimal
  digits per byte and to fail on anything else, which is the spec's "fixed-length hex
  string".
\<close>

fun fromhex :: "string \<Rightarrow> byte list option" where
  "fromhex [] = Some []"
| "fromhex [c] = None"
| "fromhex (c # d # cs) =
     (case digit_value c of
        None \<Rightarrow> None
      | Some a \<Rightarrow>
          (case digit_value d of
             None \<Rightarrow> None
           | Some b \<Rightarrow>
               (case fromhex cs of
                  None \<Rightarrow> None
                | Some bs \<Rightarrow> Some (hex_byte a b # bs))))"

definition hex_char :: "nat \<Rightarrow> char" where
  "hex_char n = ''0123456789abcdef'' ! n"

definition hexlify :: "byte list \<Rightarrow> string" where
  "hexlify bs = concat (map (\<lambda>b. [hex_char (unat b div 16), hex_char (unat b mod 16)]) bs)"

text \<open>\<open>str(oid)\<close>: the identifier's string form.\<close>

definition ObjectId_str :: "objectid \<Rightarrow> string" where
  "ObjectId_str oid = hexlify (binary oid)"

subsection \<open>\<open>ObjectId(oid)\<close>, \<open>ObjectId.is_valid\<close> and \<open>PyObjectId.validate\<close>\<close>

text \<open>
  Modelled from the spec: the constructor \<open>ObjectId(oid)\<close> of the bson package is
  library code outside the repository. On the objects of this development it takes another
  ObjectId or a string of 24 hexadecimal digits; it raises \<open>InvalidId\<close> on any other
  string and \<open>TypeError\<close> on any other object.
\<close>

fun ObjectId_init :: "pyobj \<Rightarrow> error + objectid" where
  "ObjectId_init (PyObjectId oid) = Inr oid"
| "ObjectId_init (PyStr s) =
     (if length s = 24
      then (case fromhex s of None \<Rightarrow> Inl InvalidId | Some bs \<Rightarrow> Inr (ObjectId bs))
      else Inl InvalidId)"
| "ObjectId_init (PyInt n) = Inl TypeError"
| "ObjectId_init (PyItem x) = Inl TypeError"
| "ObjectId_init (PyForeignKey fk) = Inl TypeError"

text \<open>Python truthiness: the empty string and zero are falsy, other objects truthy.\<close>

fun truthy :: "pyobj \<Rightarrow> bool" where
  "truthy (PyStr s) = (s \<noteq> [])"
| "truthy (PyInt n) = (n \<noteq> 0)"
| "truthy (PyObjectId oid) = True"
| "truthy (PyItem x) = True"
| "truthy (PyForeignKey fk) = True"

text \<open>
  Modelled from the spec: \<open>ObjectId.is_valid\<close> of the bson package, library code outside
  the repository. It is false on a falsy argument and otherwise tells whether the
  constructor accepts the argument.
\<close>

definition is_valid :: "pyobj \<Rightarrow> bool" where
  "is_valid oid =
     (if \<not> truthy oid then False
      else (case ObjectId_init oid of Inr _ \<Rightarrow> True | Inl _ \<Rightarrow> False))"

fun isinstance_ObjectId :: "pyobj \<Rightarrow> bool" where
  "isinstance_ObjectId (PyObjectId oid) = True"
| "isinstance_ObjectId _ = False"

text \<open>\<open>PyObjectId.validate\<close>, database.py lines 80-87.\<close>

definition validate :: "pyobj \<Rightarrow> error + objectid" where
  "validate v =
     (if isinstance_ObjectId v then ObjectId_init v
      else if \<not> is_valid v then Inl ValueError
      else ObjectId_init v)"

text \<open>
  The spec's well-formed identifier string, in the spec's words: the fixed-length
  hexadecimal form of twelve bytes.
\<close>

definition hexdigit :: "char \<Rightarrow> bool" where
  "hexdigit c = (c \<in> set ''0123456789abcdefABCDEF'')"

definition well_formed_identifier_string :: "string \<Rightarrow> bool" where
  "well_formed_identifier_string s = (length s = 24 \<and> list_all hexdigit s)"

definition hex_lower :: "char \<Rightarrow> char" where
  "hex_lower c =
     (if c = CHR ''A'' then CHR ''a'' else if c = CHR ''B'' then CHR ''b''
      else if c = CHR ''C'' then CHR ''c'' else if c = CHR ''D'' then CHR ''d''
      else if c = CHR ''E'' then CHR ''e'' else if c = CHR ''F'' then CHR ''f'' else c)"

section \<open>Entities\<close>

subsection \<open>Equality and hashing of \<open>DatabaseItem\<close>\<close>

text \<open>
  \<open>ObjectId.__eq__\<close> compares the twelve bytes and \<open>ObjectId.__hash__\<close> hashes them.
  Python's \<open>hash\<close> on bytes is a parameter \<open>h\<close> of the model.
\<close>

definition ObjectId_eq :: "objectid \<Rightarrow> objectid \<Rightarrow> bool" where
  "ObjectId_eq a b = (binary a = binary b)"

definition ObjectId_hash :: "(byte list \<Rightarrow> int) \<Rightarrow> objectid \<Rightarrow> int" where
  "ObjectId_hash h oid = h (binary oid)"

text \<open>
  \<open>DatabaseItem.__eq__\<close> and \<open>__hash__\<close>, database.py lines 96-102. The result
  \<open>None\<close> stands for \<open>NotImplemented\<close>.
\<close>

fun DatabaseItem_eq :: "item \<Rightarrow> pyobj \<Rightarrow> bool option" where
  "DatabaseItem_eq self (PyItem other) =
     Some (ObjectId_eq (item_identifier self) (item_identifier other))"
| "DatabaseItem_eq self _ = None"

definition DatabaseItem_hash :: "(byte list \<Rightarrow> int) \<Rightarrow> item \<Rightarrow> int" where
  "DatabaseItem_hash h self = ObjectId_hash h (item_identifier self)"

subsection \<open>\<open>isinstance\<close> on entity classes\<close>

fun issubclass :: "cls \<Rightarrow> cls \<Rightarrow> bool" where
  "issubclass (Cls n fs bs) T = (Cls n fs bs = T \<or> list_ex (\<lambda>b. issubclass b T) bs)"

fun isinstance :: "pyobj \<Rightarrow> cls \<Rightarrow> bool" where
  "isinstance (PyItem x) T = issubclass (item_type x) T"
| "isinstance _ T = False"

fun isinstance_ForeignKey :: "pyobj \<Rightarrow> bool" where
  "isinstance_ForeignKey (PyForeignKey fk) = True"
| "isinstance_ForeignKey _ = False"

fun isinstance_str :: "pyobj \<Rightarrow> bool" where
  "isinstance_str (PyStr s) = True"
| "isinstance_str _ = False"

section \<open>Typed references\<close>

text \<open>
  \<open>==\<close> on the identifiers a \<open>ForeignKey\<close> holds. Two strings compare by content and two
  ObjectIds by their bytes. Between a string and an ObjectId both \<open>__eq__\<close> methods
  return \<open>NotImplemented\<close>, and Python falls back to object identity: the result is
  \<open>False\<close>.
\<close>

fun ident_eq :: "fk_ident \<Rightarrow> fk_ident \<Rightarrow> bool" where
  "ident_eq (IdStr a) (IdStr b) = (a = b)"
| "ident_eq (IdObjectId a) (IdObjectId b) = ObjectId_eq a b"
| "ident_eq (IdStr a) (IdObjectId b) = False"
| "ident_eq (IdObjectId a) (IdStr b) = False"

text \<open>\<open>ForeignKey.__eq__\<close> and \<open>__hash__\<close>, database.py lines 23-31.\<close>

fun ForeignKey_eq :: "foreign_key \<Rightarrow> pyobj \<Rightarrow> bool" where
  "ForeignKey_eq self (PyForeignKey other) =
     (target_type self = target_type other
      \<and> ident_eq (fk_identifier self) (fk_identifier other))"
| "ForeignKey_eq self _ = False"

definition ForeignKey_hash :: "(cls \<times> fk_ident \<Rightarrow> int) \<Rightarrow> foreign_key \<Rightarrow> int" where
  "ForeignKey_hash h self = h (target_type self, fk_identifier self)"

text \<open>
  The validator of \<open>ForeignKey[target_type]\<close>, database.py lines 46-53. The branches are
  tried in the source's order; on an entity the reference takes \<open>v.identifier\<close>, the
  entity's \<open>PyObjectId\<close>, as it is.
\<close>

definition validator :: "cls \<Rightarrow> pyobj \<Rightarrow> error + foreign_key" where
  "validator T v =
     (case v of
        PyForeignKey fk \<Rightarrow> Inr fk
      | PyItem x \<Rightarrow>
          if isinstance (PyItem x) T then Inr (ForeignKey T (IdObjectId (item_identifier x)))
          else Inl TypeError
      | PyStr s \<Rightarrow> Inr (ForeignKey T (IdStr s))
      | _ \<Rightarrow> Inl TypeError)"

text \<open>
  The core schema of \<open>ForeignKey[target_type]\<close>, database.py lines 55-64: pydantic first
  runs the union schema, which passes an instance of the target type, a string or a
  \<open>ForeignKey\<close> through unchanged and rejects every other object with a
  \<open>ValidationError\<close>, and then calls the validator on what the union returned.
\<close>

definition union_schema :: "cls \<Rightarrow> pyobj \<Rightarrow> error + pyobj" where
  "union_schema T v =
     (if isinstance v T \<or> isinstance_str v \<or> isinstance_ForeignKey v then Inr v
      else Inl ValidationError)"

definition ForeignKey_core_schema :: "cls \<Rightarrow> pyobj \<Rightarrow> error + foreign_key" where
  "ForeignKey_core_schema T v =
     (case union_schema T v of Inl e \<Rightarrow> Inl e | Inr v' \<Rightarrow> validator T v')"

section \<open>Validation and serialisation of entities\<close>

text \<open>
  The Python object pymongo returns for a stored value, and the Python object an entity
  holds in a data field.
\<close>

fun to_pyobj :: "fvalue \<Rightarrow> pyobj" where
  "to_pyobj (VStr s) = PyStr s"
| "to_pyobj (VOid i) = PyObjectId i"

fun attr_obj :: "attr \<Rightarrow> pyobj" where
  "attr_obj (AStr s) = PyStr s"
| "attr_obj (AOid i) = PyObjectId i"
| "attr_obj (ARef fk) = PyForeignKey fk"

text \<open>
  Validation of one field value against its declared type: a \<open>str\<close> field takes strings
  only, a \<open>PyObjectId\<close> field runs \<open>PyObjectId.validate\<close>, whose \<open>ValueError\<close>
  pydantic reports as a \<open>ValidationError\<close>, and a \<open>ForeignKey\<close> field runs the core
  schema of its target type.
\<close>

fun validate_field :: "ftype \<Rightarrow> pyobj \<Rightarrow> error + attr" where
  "validate_field TStr (PyStr s) = Inr (AStr s)"
| "validate_field TStr _ = Inl ValidationError"
| "validate_field TObjectId v =
     (case validate v of Inl e \<Rightarrow> Inl ValidationError | Inr i \<Rightarrow> Inr (AOid i))"
| "validate_field (TForeignKey T) v =
     (case ForeignKey_core_schema T v of Inl e \<Rightarrow> Inl e | Inr fk \<Rightarrow> Inr (ARef fk))"

fun validate_fields :: "(string \<times> ftype) list \<Rightarrow> (string \<times> pyobj) list
    \<Rightarrow> error + (string \<times> attr) list" where
  "validate_fields [] fs = Inr []"
| "validate_fields ((k, t) # decls) fs =
     (case map_of fs k of
        None \<Rightarrow> Inl ValidationError
      | Some v \<Rightarrow>
          (case validate_field t v of
             Inl e \<Rightarrow> Inl e
           | Inr v' \<Rightarrow>
               (case validate_fields decls fs of
                  Inl e \<Rightarrow> Inl e
                | Inr rest \<Rightarrow> Inr ((k, v') # rest))))"

text \<open>
  A document of the store: its \<open>_id\<close> and its other fields. Every document MongoDB
  holds or returns has an \<open>_id\<close>, so the key is kept apart; \<open>as_dict\<close> is the dictionary
  pymongo hands to Python.
\<close>

type_synonym document = "(string \<times> fvalue) list"

type_synonym stored = "objectid \<times> document"

definition as_dict :: "stored \<Rightarrow> document" where
  "as_dict d = (''_id'', VOid (fst d)) # snd d"

text \<open>
  \<open>class_type.model_validate(res)\<close> on a document of the store: the identifier goes
  through \<open>PyObjectId.validate\<close>, every declared field must be present and pass the
  validation of its type, other keys are ignored. The document supplies an identifier, so
  the default factory never runs.
\<close>

definition model_validate :: "cls \<Rightarrow> stored \<Rightarrow> error + item" where
  "model_validate c d =
     (case validate (PyObjectId (fst d)) of
        Inl e \<Rightarrow> Inl ValidationError
      | Inr i \<Rightarrow>
          (case validate_fields (cfields c) (map (\<lambda>(k, v). (k, to_pyobj v)) (snd d)) of
             Inl e \<Rightarrow> Inl e
           | Inr fs \<Rightarrow> Inr \<lparr>item_type = c, item_identifier = i, data = fs\<rparr>))"

text \<open>
  \<open>item.model_validate(item)\<close> on an instance (\<open>revalidate_instances="always"\<close>): the
  same validation, read from the instance's own attributes.
\<close>

definition model_validate_instance :: "item \<Rightarrow> error + item" where
  "model_validate_instance it =
     (case validate (PyObjectId (item_identifier it)) of
        Inl e \<Rightarrow> Inl ValidationError
      | Inr i \<Rightarrow>
          (case validate_fields (cfields (item_type it))
                  (map (\<lambda>(k, a). (k, attr_obj a)) (data it)) of
             Inl e \<Rightarrow> Inl e
           | Inr fs \<Rightarrow> Inr \<lparr>item_type = item_type it, item_identifier = i, data = fs\<rparr>))"

text \<open>
  \<open>item.model_dump(by_alias=True, exclude=...)\<close>. Each field has a name and an alias
  (\<open>identifier\<close> has the alias \<open>_id\<close>, a data field is its own alias); pydantic matches
  \<open>exclude\<close> against the names and writes the aliases. No serialiser is declared for
  \<open>ForeignKey\<close>, so a reference is dumped as the object it is.
\<close>

definition model_fields :: "item \<Rightarrow> (string \<times> string \<times> attr) list" where
  "model_fields it =
     (''identifier'', ''_id'', AOid (item_identifier it)) # map (\<lambda>(k, v). (k, k, v)) (data it)"

definition model_dump :: "item \<Rightarrow> string list \<Rightarrow> (string \<times> attr) list" where
  "model_dump it exclude =
     map (\<lambda>(name, alias, v). (alias, v))
       (filter (\<lambda>(name, alias, v). name \<notin> set exclude) (model_fields it))"

text \<open>
  Modelled from the spec: the BSON encoder of pymongo, library code outside the
  repository. It encodes strings and ObjectIds and raises \<open>InvalidDocument\<close> on an object
  it has no encoder for, such as a \<open>ForeignKey\<close>.
\<close>

fun bson_encode :: "attr \<Rightarrow> error + fvalue" where
  "bson_encode (AStr s) = Inr (VStr s)"
| "bson_encode (AOid i) = Inr (VOid i)"
| "bson_encode (ARef fk) = Inl InvalidDocument"

fun encode_document :: "(string \<times> attr) list \<Rightarrow> error + document" where
  "encode_document [] = Inr []"
| "encode_document ((k, a) # rest) =
     (case bson_encode a of
        Inl e \<Rightarrow> Inl e
      | Inr v \<Rightarrow>
          (case encode_document rest of
             Inl e \<Rightarrow> Inl e
           | Inr vs \<Rightarrow> Inr ((k, v) # vs)))"

section \<open>The document-store backend\<close>

text \<open>
  A collection is the list of its documents, in the store's natural order; the database
  maps a collection name to its collection, empty until written. MongoDB keeps \<open>_id\<close>
  unique within a collection.
\<close>

type_synonym collection = "stored list"

type_synonym database = "string \<Rightarrow> collection"

definition unique_ids :: "collection \<Rightarrow> bool" where
  "unique_ids coll = distinct (map fst coll)"

subsection \<open>The store's operations, as the backend calls them\<close>

text \<open>
  Modelled from the spec: MongoDB and pymongo are outside the repository. \<open>$set\<close>
  writes each given field and leaves the others; writing \<open>_id\<close> is accepted when it does
  not change the document's \<open>_id\<close> and rejected otherwise.
\<close>

definition set_fields :: "document \<Rightarrow> document \<Rightarrow> document" where
  "set_fields upd fs = fold (\<lambda>(k, v). AList.update k v) upd fs"

definition apply_set :: "document \<Rightarrow> stored \<Rightarrow> error + stored" where
  "apply_set upd d =
     (case map_of upd ''_id'' of
        None \<Rightarrow> Inr (fst d, set_fields upd (snd d))
      | Some v \<Rightarrow>
          if v = VOid (fst d)
          then Inr (fst d, set_fields (filter (\<lambda>(k, v). k \<noteq> ''_id'') upd) (snd d))
          else Inl WriteError)"

text \<open>
  Modelled from the spec: \<open>update_one(filter={"_id": i}, update={"$set": upd},
  upsert=True)\<close>, the filtered upsert keyed by identifier: the first document with that
  \<open>_id\<close> is updated, and when there is none a document with that \<open>_id\<close> is inserted.
\<close>

fun update_one :: "collection \<Rightarrow> objectid \<Rightarrow> document \<Rightarrow> error + collection" where
  "update_one [] i upd =
     (case apply_set upd (i, []) of Inl e \<Rightarrow> Inl e | Inr d \<Rightarrow> Inr [d])"
| "update_one (d # ds) i upd =
     (if fst d = i
      then (case apply_set upd d of Inl e \<Rightarrow> Inl e | Inr d' \<Rightarrow> Inr (d' # ds))
      else (case update_one ds i upd of Inl e \<Rightarrow> Inl e | Inr ds' \<Rightarrow> Inr (d # ds')))"

text \<open>Modelled from the spec: \<open>find_one(filter={"_id": i})\<close>, the first such document.\<close>

fun find_one_id :: "collection \<Rightarrow> objectid \<Rightarrow> stored option" where
  "find_one_id [] i = None"
| "find_one_id (d # ds) i = (if fst d = i then Some d else find_one_id ds i)"

text \<open>
  Modelled from the spec: \<open>delete_one(filter={"_id": i})\<close>, the single-document delete:
  it removes the first such document and reports how many it removed.
\<close>

fun delete_one :: "collection \<Rightarrow> objectid \<Rightarrow> collection \<times> nat" where
  "delete_one [] i = ([], 0)"
| "delete_one (d # ds) i =
     (if fst d = i then (ds, 1)
      else (case delete_one ds i of (ds', n) \<Rightarrow> (d # ds', n)))"

text \<open>
  Modelled from the spec: \<open>find(filter=kwargs)\<close>, an equality filter: the cursor runs
  over the documents whose fields equal every key/value pair of the filter.
\<close>

definition matches :: "document \<Rightarrow> document \<Rightarrow> bool" where
  "matches flt doc = list_all (\<lambda>(k, v). map_of doc k = Some v) flt"

definition find_cursor :: "collection \<Rightarrow> document \<Rightarrow> collection" where
  "find_cursor coll flt = filter (\<lambda>d. matches flt (as_dict d)) coll"

text \<open>
  Truthiness of what the operations return: a dictionary is truthy when it has a key, and
  a cursor object, which defines neither \<open>__bool__\<close> nor \<open>__len__\<close>, is always truthy.
\<close>

definition dict_truthy :: "document \<Rightarrow> bool" where
  "dict_truthy doc = (doc \<noteq> [])"

definition cursor_truthy :: "collection \<Rightarrow> bool" where
  "cursor_truthy results = True"

subsection \<open>\<open>MongoDBDatabase\<close>, backends/mongodb.py\<close>

text \<open>
  \<open>update\<close>, lines 18-26. The collection is named after the item's class; pymongo
  encodes the dumped fields before the store applies the update.
\<close>

definition update :: "database \<Rightarrow> item \<Rightarrow> error + database" where
  "update db it =
     (let item_type = item_type it in
      case model_validate_instance it of
        Inl e \<Rightarrow> Inl e
      | Inr _ \<Rightarrow>
          (case encode_document (model_dump it [''_id'']) of
             Inl e \<Rightarrow> Inl e
           | Inr upd \<Rightarrow>
               (case update_one (db (cname item_type)) (item_identifier it) upd of
                  Inl e \<Rightarrow> Inl e
                | Inr coll \<Rightarrow> Inr (db (cname item_type := coll)))))"

text \<open>\<open>get\<close>, lines 28-32.\<close>

definition get :: "database \<Rightarrow> cls \<Rightarrow> objectid \<Rightarrow> error + item" where
  "get db class_type i =
     (let collection = db (cname class_type) in
      case find_one_id collection i of
        None \<Rightarrow> Inl UnknownEntityError
      | Some res \<Rightarrow>
          if dict_truthy (as_dict res) then model_validate class_type res
          else Inl UnknownEntityError)"

text \<open>\<open>get_all\<close>, lines 34-35.\<close>

definition get_all :: "database \<Rightarrow> cls \<Rightarrow> error + (string \<times> item) list" where
  "get_all db class_type = Inl NotImplementedError"

text \<open>\<open>delete\<close>, lines 37-41. The flag \<open>cascade\<close> is not read.\<close>

definition delete :: "database \<Rightarrow> cls \<Rightarrow> objectid \<Rightarrow> bool \<Rightarrow> error + database" where
  "delete db class_type i cascade =
     (let collection = db (cname class_type) in
      case delete_one collection i of
        (coll, deleted_count) \<Rightarrow>
          if deleted_count \<noteq> 1 then Inl UnknownEntityError
          else Inr (db (cname class_type := coll)))"

text \<open>
  \<open>find\<close>, lines 43-47. The dictionary comprehension runs over the cursor, validates each
  document and stores it under its \<open>_id\<close>; the first failing validation raises. The
  dictionary is an association list in insertion order.
\<close>

fun comprehension :: "cls \<Rightarrow> collection \<Rightarrow> (objectid \<times> item) list
    \<Rightarrow> error + (objectid \<times> item) list" where
  "comprehension class_type [] acc = Inr acc"
| "comprehension class_type (res # results) acc =
     (case model_validate class_type res of
        Inl e \<Rightarrow> Inl e
      | Inr it \<Rightarrow> comprehension class_type results (AList.update (fst res) it acc))"

definition find_db :: "database \<Rightarrow> cls \<Rightarrow> document
    \<Rightarrow> error + (objectid \<times> item) list option" where
  "find_db db class_type kwargs =
     (let collection = db (cname class_type);
          results = find_cursor collection kwargs in
      if cursor_truthy results
      then (case comprehension class_type results [] of
              Inl e \<Rightarrow> Inl e
            | Inr m \<Rightarrow> Inr (Some m))
      else Inr None)"

section \<open>Notions of the specification\<close>



fun has_type :: "ftype \<Rightarrow> attr \<Rightarrow> bool" where
  "has_type TStr (AStr s) = True"
| "has_type TObjectId (AOid i) = True"
| "has_type (TForeignKey T) (ARef fk) = True"
| "has_type _ _ = False"

text \<open>
  A fully populated entity of a class: it holds a value of the declared type for every
  declared field, in the order of declaration.
\<close>

definition fully_populated :: "cls \<Rightarrow> item \<Rightarrow> bool" where
  "fully_populated c it =
     (item_type it = c
      \<and> map fst (data it) = map fst (cfields c)
      \<and> list_all2 has_type (map snd (cfields c)) (map snd (data it)))"









section \<open>Entities of the test suite\<close>

text \<open>
  The classes \<open>User\<close> (tests/test_database_mongodb.py), \<open>Customer\<close> and \<open>Product\<close>
  (tests/test_database.py), two identifiers, the entities Eve, Frank, Eve after a change of
  her address, a customer and a product that refers to it, and a store that holds Eve and
  Frank.
\<close>

definition User :: cls where
  "User = Cls ''User'' [(''name'', TStr), (''email'', TStr)] []"

definition Customer :: cls where
  "Customer = Cls ''Customer'' [(''name'', TStr), (''city'', TStr)] []"

definition Product :: cls where
  "Product = Cls ''Product'' [(''name'', TStr), (''customer'', TForeignKey Customer)] []"

definition oid_a :: objectid where
  "oid_a = ObjectId [80, 127, 31, 119, 188, 248, 108, 215, 153, 67, 144, 17]"

definition oid_b :: objectid where
  "oid_b = ObjectId [80, 127, 31, 119, 188, 248, 108, 215, 153, 67, 144, 18]"

definition eve :: item where
  "eve = \<lparr>item_type = User, item_identifier = oid_a,
          data = [(''name'', AStr ''Eve''), (''email'', AStr ''eve@example.com'')]\<rparr>"

definition eve_moved :: item where
  "eve_moved = \<lparr>item_type = User, item_identifier = oid_a,
          data = [(''name'', AStr ''Eve''), (''email'', AStr ''eve@example.org'')]\<rparr>"

definition frank :: item where
  "frank = \<lparr>item_type = User, item_identifier = oid_b,
          data = [(''name'', AStr ''Frank''), (''email'', AStr ''frank@example.com'')]\<rparr>"

definition customer :: item where
  "customer = \<lparr>item_type = Customer, item_identifier = oid_a,
          data = [(''name'', AStr ''name''), (''city'', AStr ''city'')]\<rparr>"

definition product :: item where
  "product = \<lparr>item_type = Product, item_identifier = oid_b,
          data = [(''name'', AStr ''product''),
                  (''customer'', ARef (ForeignKey Customer (IdObjectId oid_a)))]\<rparr>"

definition eve_doc :: document where
  "eve_doc = [(''name'', VStr ''Eve''), (''email'', VStr ''eve@example.com'')]"

definition eve_moved_doc :: document where
  "eve_moved_doc = [(''name'', VStr ''Eve''), (''email'', VStr ''eve@example.org'')]"

definition frank_doc :: document where
  "frank_doc = [(''name'', VStr ''Frank''), (''email'', VStr ''frank@example.com'')]"

definition empty_db :: database where
  "empty_db = (\<lambda>name. [])"

definition users_db :: database where
  "users_db = empty_db (''User'' := [(oid_a, eve_doc), (oid_b, frank_doc)])"

section \<open>Identifier parsing\<close>

lemma digit_value_hexdigit: "digit_value c = Some a \<Longrightarrow> hexdigit c"
  by (auto simp: digit_value_def hexdigit_def split: if_splits)

lemma hexdigit_digit_value:
  "hexdigit c \<Longrightarrow> \<exists>a. digit_value c = Some a \<and> a < 16 \<and> hex_char a = hex_lower c"
  by (auto simp: digit_value_def hexdigit_def hex_char_def hex_lower_def)

lemma unat_hex_byte:
  assumes "a < 16" "b < 16"
  shows "unat (hex_byte a b) = 16 * a + b"
proof -
  have "16 * a + b < 256" using assms by arith
  then show ?thesis unfolding hex_byte_def by (simp only: unat_of_nat) simp
qed

lemma hexlify_Cons:
  "hexlify (b # bs) = hex_char (unat b div 16) # hex_char (unat b mod 16) # hexlify bs"
  by (simp add: hexlify_def)

lemma fromhex_hexdigits: "fromhex s = Some bs \<Longrightarrow> list_all hexdigit s"
proof (induction s arbitrary: bs rule: fromhex.induct)
  case 1
  then show ?case by simp
next
  case (2 c)
  then show ?case by simp
next
  case (3 c d cs)
  then show ?case
    by (auto split: option.splits dest: digit_value_hexdigit)
qed

lemma fromhex_accepts:
  "list_all hexdigit s \<Longrightarrow> even (length s) \<Longrightarrow>
     \<exists>bs. fromhex s = Some bs \<and> 2 * length bs = length s \<and> hexlify bs = map hex_lower s"
proof (induction s rule: fromhex.induct)
  case 1
  then show ?case by (simp add: hexlify_def)
next
  case (2 c)
  then show ?case by simp
next
  case (3 c d cs)
  from 3(2) obtain a where a: "digit_value c = Some a" "a < 16" "hex_char a = hex_lower c"
    using hexdigit_digit_value [of c] by auto
  from 3(2) obtain b where b: "digit_value d = Some b" "b < 16" "hex_char b = hex_lower d"
    using hexdigit_digit_value [of d] by auto
  from 3(2,3) have "list_all hexdigit cs" "even (length cs)" by simp_all
  with 3(1) [OF a(1) b(1)] obtain bs where
    bs: "fromhex cs = Some bs" "2 * length bs = length cs" "hexlify bs = map hex_lower cs"
    by blast
  have u: "unat (hex_byte a b) = 16 * a + b"
    using a(2) b(2) by (rule unat_hex_byte)
  have "fromhex (c # d # cs) = Some (hex_byte a b # bs)"
    using a(1) b(1) bs(1) by simp
  moreover have "hexlify (hex_byte a b # bs) = map hex_lower (c # d # cs)"
    using a(2,3) b(2,3) bs(3) by (simp add: hexlify_Cons u)
  moreover have "2 * length (hex_byte a b # bs) = length (c # d # cs)"
    using bs(2) by simp
  ultimately show ?case by blast
qed

text \<open>
  C9. Parsing an identifier string with \<open>PyObjectId.validate\<close>: a string that is not the
  24-digit hexadecimal form of an identifier is rejected with \<open>ValueError\<close> (the spec's
  InvalidIdentifierError); a well-formed string yields the twelve-byte identifier whose
  string form is the input, read case-insensitively.
\<close>

theorem validate_identifier_string:
  "(well_formed_identifier_string s \<longrightarrow>
      (\<exists>oid. validate (PyStr s) = Inr oid \<and> length (binary oid) = 12
         \<and> ObjectId_str oid = map hex_lower s))
   \<and> (\<not> well_formed_identifier_string s \<longrightarrow> validate (PyStr s) = Inl ValueError)"
proof (intro conjI impI)
  assume wf: "well_formed_identifier_string s"
  then have len: "length s = 24" and hex: "list_all hexdigit s"
    by (simp_all add: well_formed_identifier_string_def)
  from fromhex_accepts [OF hex] len obtain bs where
    bs: "fromhex s = Some bs" "2 * length bs = length s" "hexlify bs = map hex_lower s"
    by auto
  from len have ne: "s \<noteq> []" by auto
  have "validate (PyStr s) = Inr (ObjectId bs)"
    using len bs(1) ne by (simp add: validate_def is_valid_def)
  moreover have "length (binary (ObjectId bs)) = 12" using bs(2) len by simp
  moreover have "ObjectId_str (ObjectId bs) = map hex_lower s"
    using bs(3) by (simp add: ObjectId_str_def)
  ultimately show "\<exists>oid. validate (PyStr s) = Inr oid \<and> length (binary oid) = 12
         \<and> ObjectId_str oid = map hex_lower s"
    by blast
next
  assume nwf: "\<not> well_formed_identifier_string s"
  show "validate (PyStr s) = Inl ValueError"
  proof (cases "length s = 24")
    case False
    then show ?thesis by (simp add: validate_def is_valid_def)
  next
    case True
    with nwf have "\<not> list_all hexdigit s"
      by (simp add: well_formed_identifier_string_def)
    then have "fromhex s = None"
      using fromhex_hexdigits [of s] by (cases "fromhex s") auto
    then show ?thesis using True by (simp add: validate_def is_valid_def)
  qed
qed

theorem validate_identifier_string_witness:
  "well_formed_identifier_string ''507f1f77bcf86cd799439011''
   \<and> validate (PyStr ''507f1f77bcf86cd799439011'') = Inr oid_a
   \<and> ObjectId_str oid_a = ''507f1f77bcf86cd799439011''
   \<and> \<not> well_formed_identifier_string ''not-an-identifier''
   \<and> validate (PyStr ''not-an-identifier'') = Inl ValueError"
proof -
  have wf: "well_formed_identifier_string ''507f1f77bcf86cd799439011''"
    by (simp add: well_formed_identifier_string_def hexdigit_def)
  have nwf: "\<not> well_formed_identifier_string ''not-an-identifier''"
    by (simp add: well_formed_identifier_string_def)
  have v: "validate (PyStr ''507f1f77bcf86cd799439011'') = Inr oid_a"
    by (simp add: validate_def is_valid_def digit_value_def hex_byte_def oid_a_def)
  have s: "ObjectId_str oid_a = ''507f1f77bcf86cd799439011''"
    by (simp add: ObjectId_str_def hexlify_def hex_char_def oid_a_def)
  from validate_identifier_string [of "''not-an-identifier''"] nwf
  have "validate (PyStr ''not-an-identifier'') = Inl ValueError" by blast
  with validate_identifier_string [of "''507f1f77bcf86cd799439011''"] wf nwf v s
  show ?thesis by blast
qed

section \<open>Identity of entities\<close>

lemma ObjectId_eq_iff: "ObjectId_eq a b = (a = b)"
  by (cases a; cases b) (simp add: ObjectId_eq_def)

text \<open>
  C4. Identity-only equality: two entities, of any classes and with any field values, are
  equal exactly when their identifiers are equal, and entities with equal identifiers have
  the same hash; replacing the class or the data fields of either changes neither the
  comparison nor the hash.
\<close>

theorem DatabaseItem_identity_equality:
  "DatabaseItem_eq a (PyItem b) = Some (item_identifier a = item_identifier b)
   \<and> (item_identifier a = item_identifier b \<longrightarrow> DatabaseItem_hash h a = DatabaseItem_hash h b)
   \<and> DatabaseItem_eq (a\<lparr>item_type := t, data := fs\<rparr>) (PyItem (b\<lparr>item_type := t', data := fs'\<rparr>))
       = DatabaseItem_eq a (PyItem b)
   \<and> DatabaseItem_hash h (a\<lparr>item_type := t, data := fs\<rparr>) = DatabaseItem_hash h a"
  by (simp add: ObjectId_eq_iff DatabaseItem_hash_def)

theorem DatabaseItem_identity_equality_witness:
  "item_identifier eve = item_identifier eve_moved \<and> data eve \<noteq> data eve_moved
   \<and> DatabaseItem_eq eve (PyItem eve_moved) = Some True
   \<and> DatabaseItem_hash (\<lambda>bs. int (length bs)) eve = DatabaseItem_hash (\<lambda>bs. int (length bs)) eve_moved
   \<and> DatabaseItem_eq eve (PyItem frank) = Some False"
  using DatabaseItem_identity_equality [of eve eve_moved "\<lambda>bs. int (length bs)"]
    DatabaseItem_identity_equality [of eve frank "\<lambda>bs. int (length bs)"]
  by (simp add: eve_def eve_moved_def frank_def oid_a_def oid_b_def)

section \<open>Construction of typed references\<close>

text \<open>
  C5. Reference normalisation fails on the code: for the entity \<open>customer\<close> of class
  \<open>Customer\<close>, the reference built from the entity holds the entity's \<open>PyObjectId\<close>,
  the reference built from the identifier's string form holds the string, and
  \<open>ForeignKey.__eq__\<close> finds the two different. Both inputs pass the union schema, so
  the whole core schema builds the same two references.
\<close>

theorem ForeignKey_of_instance_and_of_string_differ:
  "isinstance (PyItem customer) Customer
   \<and> validator Customer (PyItem customer) = Inr (ForeignKey Customer (IdObjectId oid_a))
   \<and> ObjectId_str (item_identifier customer) = ''507f1f77bcf86cd799439011''
   \<and> validator Customer (PyStr ''507f1f77bcf86cd799439011'')
       = Inr (ForeignKey Customer (IdStr ''507f1f77bcf86cd799439011''))
   \<and> \<not> ForeignKey_eq (ForeignKey Customer (IdObjectId oid_a))
         (PyForeignKey (ForeignKey Customer (IdStr ''507f1f77bcf86cd799439011'')))
   \<and> ForeignKey_core_schema Customer (PyItem customer)
       = Inr (ForeignKey Customer (IdObjectId oid_a))
   \<and> ForeignKey_core_schema Customer (PyStr ''507f1f77bcf86cd799439011'')
       = Inr (ForeignKey Customer (IdStr ''507f1f77bcf86cd799439011''))"
  by (simp add: ForeignKey_core_schema_def union_schema_def validator_def customer_def
      Customer_def ObjectId_str_def hexlify_def hex_char_def oid_a_def)

text \<open>
  What the core schema rejects: an object that is neither an instance of the target type,
  nor a string, nor a \<open>ForeignKey\<close> fails in the union schema with pydantic's
  \<open>ValidationError\<close>, before the validator runs; the validator's own \<open>TypeError\<close> is
  never reached. An entity of another class is rejected in this way.
\<close>

lemma ForeignKey_core_schema_rejects:
  "\<not> isinstance v T \<Longrightarrow> \<not> isinstance_str v \<Longrightarrow> \<not> isinstance_ForeignKey v \<Longrightarrow>
     ForeignKey_core_schema T v = Inl ValidationError"
  by (simp add: ForeignKey_core_schema_def union_schema_def)

lemma validator_TypeError_unreachable:
  "union_schema T v = Inr v' \<Longrightarrow> validator T v' \<noteq> Inl TypeError"
  by (cases v) (auto simp: union_schema_def validator_def split: if_splits)

text \<open>
  C6. The claim is violated by the code: a reference to a \<open>User\<close>, handed to the core
  schema of \<open>ForeignKey[Customer]\<close>, is neither a \<open>Customer\<close>, nor a string, nor a
  reference to a \<open>Customer\<close>; the claim makes it a construction error, and the code returns
  it unchanged, so that a \<open>ForeignKey[Customer]\<close> field holds a reference to a \<open>User\<close>. On
  an entity the code does check the type: the \<open>User\<close> Eve is rejected.
\<close>

theorem ForeignKey_core_schema_accepts_reference_to_other_type:
  "\<not> isinstance (PyForeignKey (ForeignKey User (IdStr ''507f1f77bcf86cd799439011''))) Customer
   \<and> \<not> isinstance_str (PyForeignKey (ForeignKey User (IdStr ''507f1f77bcf86cd799439011'')))
   \<and> target_type (ForeignKey User (IdStr ''507f1f77bcf86cd799439011'')) \<noteq> Customer
   \<and> ForeignKey_core_schema Customer
        (PyForeignKey (ForeignKey User (IdStr ''507f1f77bcf86cd799439011'')))
       = Inr (ForeignKey User (IdStr ''507f1f77bcf86cd799439011''))
   \<and> validate_field (TForeignKey Customer)
        (PyForeignKey (ForeignKey User (IdStr ''507f1f77bcf86cd799439011'')))
       = Inr (ARef (ForeignKey User (IdStr ''507f1f77bcf86cd799439011'')))
   \<and> ForeignKey_core_schema Customer (PyItem eve) = Inl ValidationError"
  by (simp add: ForeignKey_core_schema_def union_schema_def validator_def eve_def User_def
      Customer_def)

section \<open>Properties of the document-store backend\<close>

text \<open>
  C8. \<open>get_all\<close> of the document-store backend declines with \<open>NotImplementedError\<close>
  (the spec's NotSupportedError) on every database and class: it returns no result, in
  particular no empty one, and fails with no other error.
\<close>

theorem get_all_declines:
  "get_all db class_type = Inl NotImplementedError \<and> get_all db class_type \<noteq> Inr []"
  by (simp add: get_all_def)

theorem get_all_declines_witness:
  "get_all users_db User = Inl NotImplementedError \<and> get_all users_db User \<noteq> Inr []"
  using get_all_declines [of users_db User] by simp

subsection \<open>Evaluation of the examples\<close>

lemmas example_defs =
  eve_def eve_moved_def frank_def product_def User_def Customer_def Product_def
  oid_a_def oid_b_def eve_doc_def eve_moved_doc_def frank_doc_def users_db_def empty_db_def




subsection \<open>Reading and deleting\<close>

lemma find_one_id_None: "i \<notin> fst ` set coll \<Longrightarrow> find_one_id coll i = None"
  by (induction coll) auto

lemma find_one_id_Some: "find_one_id coll i = Some d \<Longrightarrow> fst d = i \<and> d \<in> set coll"
  by (induction coll) (auto split: if_splits)

lemma validate_ObjectId: "validate (PyObjectId i) = Inr i"
  by (simp add: validate_def)

lemma validate_field_has_type: "validate_field t v = Inr a \<Longrightarrow> has_type t a"
  by (cases t; cases v) (auto split: sum.splits)

lemma validate_fields_populated:
  "validate_fields decls fs = Inr r \<Longrightarrow>
     map fst r = map fst decls \<and> list_all2 has_type (map snd decls) (map snd r)"
proof (induction decls arbitrary: r)
  case Nil
  then show ?case by simp
next
  case (Cons kt decls)
  obtain k t where kt: "kt = (k, t)" by (cases kt)
  from Cons.prems kt obtain v v' rest where
    "map_of fs k = Some v" "validate_field t v = Inr v'"
    "validate_fields decls fs = Inr rest" "r = (k, v') # rest"
    by (auto split: option.splits sum.splits)
  with Cons.IH [of rest] kt show ?case
    by (simp add: validate_field_has_type)
qed

lemma model_validate_populated:
  "model_validate c d = Inr it \<Longrightarrow> fully_populated c it \<and> item_identifier it = fst d"
  by (auto simp: model_validate_def validate_ObjectId fully_populated_def
      split: sum.splits dest: validate_fields_populated)

text \<open>
  C2. For every class and every identifier that no document of the class's collection
  carries, \<open>get\<close> fails with \<open>UnknownEntityError\<close>; and whatever \<open>get\<close> returns is fully
  populated: an entity of the class with the requested identifier and a value of the
  declared type for every declared field.
\<close>

theorem get_unknown_identifier:
  "(i \<notin> fst ` set (db (cname c)) \<longrightarrow> get db c i = Inl UnknownEntityError)
   \<and> (\<forall>it. get db c i = Inr it \<longrightarrow> fully_populated c it \<and> item_identifier it = i)"
proof (rule conjI)
  show "i \<notin> fst ` set (db (cname c)) \<longrightarrow> get db c i = Inl UnknownEntityError"
    by (simp add: get_def find_one_id_None)
next
  show "\<forall>it. get db c i = Inr it \<longrightarrow> fully_populated c it \<and> item_identifier it = i"
  proof (intro allI impI)
    fix it
    assume g: "get db c i = Inr it"
    then obtain res where res: "find_one_id (db (cname c)) i = Some res"
      and mv: "model_validate c res = Inr it"
      by (auto simp: get_def Let_def split: option.splits if_splits)
    from find_one_id_Some [OF res] have "fst res = i" by simp
    with model_validate_populated [OF mv]
    show "fully_populated c it \<and> item_identifier it = i" by simp
  qed
qed

theorem get_unknown_identifier_witness:
  "oid_b \<notin> fst ` set (empty_db (cname User))
   \<and> get empty_db User oid_b = Inl UnknownEntityError
   \<and> get users_db User oid_a = Inr eve
   \<and> fully_populated User eve"
proof -
  have a: "oid_b \<notin> fst ` set (empty_db (cname User))" by (simp add: empty_db_def)
  have g: "get users_db User oid_a = Inr eve"
    by (simp add: get_def model_validate_def validate_def dict_truthy_def as_dict_def example_defs)
  from get_unknown_identifier [of oid_b empty_db User] a
  have "get empty_db User oid_b = Inl UnknownEntityError" by blast
  moreover from get_unknown_identifier [of oid_a users_db User] g
  have "fully_populated User eve" by blast
  ultimately show ?thesis using a g by blast
qed

lemma delete_one_absent: "i \<notin> fst ` set coll \<Longrightarrow> delete_one coll i = (coll, 0)"
  by (induction coll) auto

lemma delete_one_present: "i \<in> fst ` set coll \<Longrightarrow> snd (delete_one coll i) = 1"
proof (induction coll)
  case Nil
  then show ?case by simp
next
  case (Cons d ds)
  show ?case
  proof (cases "fst d = i")
    case True
    then show ?thesis by simp
  next
    case False
    with Cons.prems have "i \<in> fst ` set ds" by auto
    with Cons.IH False show ?thesis by (auto split: prod.splits)
  qed
qed

lemma delete_one_subset: "set (fst (delete_one coll i)) \<subseteq> set coll"
  by (induction coll) (auto split: prod.splits)

lemma delete_one_removes:
  "distinct (map fst coll) \<Longrightarrow> i \<notin> fst ` set (fst (delete_one coll i))"
proof (induction coll)
  case Nil
  then show ?case by simp
next
  case (Cons d ds)
  show ?case
  proof (cases "fst d = i")
    case True
    with Cons.prems show ?thesis by auto
  next
    case False
    with Cons show ?thesis by (auto split: prod.splits)
  qed
qed

text \<open>
  C3. In a collection with unique identifiers, \<open>delete\<close> of a stored identifier succeeds,
  after which \<open>get\<close> of that identifier fails with \<open>UnknownEntityError\<close> and so does a
  second \<open>delete\<close>; \<open>delete\<close> of an identifier that was absent before the call fails with
  \<open>UnknownEntityError\<close>.
\<close>

theorem delete_removes:
  assumes "unique_ids (db (cname c))"
  shows "(i \<in> fst ` set (db (cname c)) \<longrightarrow>
           (\<exists>db'. delete db c i cascade = Inr db'
              \<and> get db' c i = Inl UnknownEntityError
              \<and> delete db' c i cascade' = Inl UnknownEntityError))
         \<and> (i \<notin> fst ` set (db (cname c)) \<longrightarrow> delete db c i cascade = Inl UnknownEntityError)"
proof (intro conjI impI)
  assume "i \<notin> fst ` set (db (cname c))"
  then show "delete db c i cascade = Inl UnknownEntityError"
    by (simp add: delete_def delete_one_absent)
next
  assume present: "i \<in> fst ` set (db (cname c))"
  obtain coll n where del: "delete_one (db (cname c)) i = (coll, n)"
    by (cases "delete_one (db (cname c)) i")
  from delete_one_present [OF present] del have n: "n = 1" by simp
  from assms delete_one_removes [of "db (cname c)" i] del
  have gone: "i \<notin> fst ` set coll" by (simp add: unique_ids_def)
  let ?db' = "db (cname c := coll)"
  have "delete db c i cascade = Inr ?db'"
    using del n by (simp add: delete_def)
  moreover have "get ?db' c i = Inl UnknownEntityError"
    using gone by (simp add: get_def find_one_id_None)
  moreover have "delete ?db' c i cascade' = Inl UnknownEntityError"
    using gone by (simp add: delete_def delete_one_absent)
  ultimately show "\<exists>db'. delete db c i cascade = Inr db'
              \<and> get db' c i = Inl UnknownEntityError
              \<and> delete db' c i cascade' = Inl UnknownEntityError"
    by blast
qed

theorem delete_removes_witness:
  "unique_ids (users_db (cname User))
   \<and> oid_a \<in> fst ` set (users_db (cname User))
   \<and> delete users_db User oid_a False = Inr (empty_db (''User'' := [(oid_b, frank_doc)]))
   \<and> (\<exists>db'. delete users_db User oid_a False = Inr db'
         \<and> get db' User oid_a = Inl UnknownEntityError
         \<and> delete db' User oid_a False = Inl UnknownEntityError)
   \<and> oid_a \<notin> fst ` set (empty_db (cname User))
   \<and> delete empty_db User oid_a True = Inl UnknownEntityError"
proof -
  have u: "unique_ids (users_db (cname User))"
    by (simp add: unique_ids_def example_defs)
  have p: "oid_a \<in> fst ` set (users_db (cname User))"
    by (simp add: example_defs)
  have a: "oid_a \<notin> fst ` set (empty_db (cname User))" by (simp add: empty_db_def)
  have ue: "unique_ids (empty_db (cname User))" by (simp add: unique_ids_def empty_db_def)
  have d: "delete users_db User oid_a False = Inr (empty_db (''User'' := [(oid_b, frank_doc)]))"
    by (simp add: delete_def example_defs)
  from delete_removes [of users_db User oid_a False False] u p
  have "\<exists>db'. delete users_db User oid_a False = Inr db'
         \<and> get db' User oid_a = Inl UnknownEntityError
         \<and> delete db' User oid_a False = Inl UnknownEntityError" by blast
  moreover from delete_removes [of empty_db User oid_a True False] ue a
  have "delete empty_db User oid_a True = Inl UnknownEntityError" by blast
  ultimately show ?thesis using u p a d by blast
qed

subsection \<open>Finding nothing\<close>

text \<open>
  C10. \<open>find\<close> of the document-store backend never returns \<open>None\<close>: the cursor that guards
  the \<open>None\<close> branch is always truthy, and a filter that no document matches yields the
  empty mapping.
\<close>

theorem find_never_None:
  "find_db db c flt \<noteq> Inr None
   \<and> ((\<forall>d \<in> set (db (cname c)). \<not> matches flt (as_dict d)) \<longrightarrow> find_db db c flt = Inr (Some []))"
proof (rule conjI)
  show "find_db db c flt \<noteq> Inr None"
    by (simp add: find_db_def cursor_truthy_def split: sum.splits)
next
  show "(\<forall>d \<in> set (db (cname c)). \<not> matches flt (as_dict d)) \<longrightarrow> find_db db c flt = Inr (Some [])"
  proof
    assume "\<forall>d \<in> set (db (cname c)). \<not> matches flt (as_dict d)"
    then have "find_cursor (db (cname c)) flt = []"
      by (simp add: find_cursor_def filter_empty_conv)
    then show "find_db db c flt = Inr (Some [])"
      by (simp add: find_db_def cursor_truthy_def)
  qed
qed

theorem find_never_None_witness:
  "find_db users_db User [(''name'', VStr ''NoSuchName'')] \<noteq> Inr None
   \<and> list_all (\<lambda>d. \<not> matches [(''name'', VStr ''NoSuchName'')] (as_dict d)) (users_db (cname User))
   \<and> find_db users_db User [(''name'', VStr ''NoSuchName'')] = Inr (Some [])"
proof -
  have a: "list_all (\<lambda>d. \<not> matches [(''name'', VStr ''NoSuchName'')] (as_dict d))
             (users_db (cname User))"
    by (simp add: matches_def as_dict_def example_defs)
  then have "\<forall>d \<in> set (users_db (cname User)).
      \<not> matches [(''name'', VStr ''NoSuchName'')] (as_dict d)"
    by (simp add: list_all_iff)
  with find_never_None [of users_db User "[(''name'', VStr ''NoSuchName'')]"] a
  show ?thesis by blast
qed


subsection \<open>Writing and reading back\<close>












lemma apply_set_dump:
  assumes "''_id'' \<notin> fst ` set fs"
  shows "apply_set (as_dict (i, fs)) (i, fs0) = Inr (i, set_fields fs fs0)"
proof -
  have "filter (\<lambda>(k, v). k \<noteq> ''_id'') fs = fs"
    using assms by (intro filter_True) (auto simp: image_iff)
  then show ?thesis by (simp add: apply_set_def as_dict_def)
qed





subsection \<open>Finding\<close>










text \<open>
  \<open>update\<close> passes \<open>exclude={"_id"}\<close>, which names the alias and so excludes no field:
  the dump handed to \<open>$set\<close> still holds \<open>_id\<close>. The stored collection is the same as
  if the identifier had been excluded, since the upsert is keyed by that identifier.
\<close>

lemma update_one_cong:
  "(\<And>d. fst d = i \<Longrightarrow> apply_set upd d = apply_set upd' d) \<Longrightarrow>
     update_one coll i upd = update_one coll i upd'"
  by (induction coll) auto

lemma apply_set_without_id:
  assumes "''_id'' \<notin> fst ` set fs"
  shows "apply_set fs (i, fs0) = Inr (i, set_fields fs fs0)"
proof -
  from assms have "map_of fs ''_id'' = None" by (simp add: map_of_eq_None_iff)
  then show ?thesis by (simp add: apply_set_def)
qed

lemma dump_exclusion_irrelevant:
  assumes "''_id'' \<notin> fst ` set fs"
  shows "update_one coll i fs = update_one coll i (as_dict (i, fs))"
proof (rule update_one_cong)
  fix d :: stored
  assume "fst d = i"
  then have d: "d = (i, snd d)" by (cases d) simp
  have "apply_set fs (i, snd d) = Inr (i, set_fields fs (snd d))"
    using assms by (rule apply_set_without_id)
  moreover have "apply_set (as_dict (i, fs)) (i, snd d) = Inr (i, set_fields fs (snd d))"
    using assms by (rule apply_set_dump)
  ultimately show "apply_set fs d = apply_set (as_dict (i, fs)) d"
    using d by metis
qed

end
